theory Spec2Isabelle
  imports Main "HOL-Library.Word" "HOL-Library.AList"
begin

section \<open>Values of the runtime\<close>

text \<open>
  The adapter works on plain key-value records: the parsed JSON bodies of the broker and
  the order records of the platform. A value is one of the JSON shapes of the runtime.
  A float is carried as its IEEE-754 binary64 bit pattern. A dict is an association list in
  insertion order; a key is looked up at its first occurrence (the keys of a dict of the
  runtime are distinct).
\<close>

datatype json =
    JNull
  | JBool bool
  | JInt int
  | JFloat "64 word"
  | JStr string
  | JList "json list"
  | JDict "(string \<times> json) list"

text \<open>An exception: the name of its class and the text that \<open>str(e)\<close> gives.\<close>

datatype exn = Exn (kind: string) (message: string)

text \<open>
  A call either raises (\<open>Inl\<close>) or returns (\<open>Inr\<close>). \<open>andThen\<close> sequences two calls: the
  second is not run when the first raises. \<open>try_except\<close> is a \<open>try\<close> block whose handler
  catches every exception of the block (all of them derive from \<open>Exception\<close>).
\<close>

definition andThen :: "exn + 'a \<Rightarrow> ('a \<Rightarrow> exn + 'b) \<Rightarrow> exn + 'b" where
  "andThen m f = (case m of Inl e \<Rightarrow> Inl e | Inr x \<Rightarrow> f x)"

definition try_except :: "exn + 'a \<Rightarrow> (exn \<Rightarrow> exn + 'a) \<Rightarrow> exn + 'a" where
  "try_except body handler = (case body of Inl e \<Rightarrow> handler e | Inr x \<Rightarrow> Inr x)"

definition quoted :: "string \<Rightarrow> string" where
  "quoted s = CHR 0x27 # s @ [CHR 0x27]"

fun type_name :: "json \<Rightarrow> string" where
  "type_name JNull = ''NoneType''"
| "type_name (JBool _) = ''bool''"
| "type_name (JInt _) = ''int''"
| "type_name (JFloat _) = ''float''"
| "type_name (JStr _) = ''str''"
| "type_name (JList _) = ''list''"
| "type_name (JDict _) = ''dict''"

text \<open>\<open>d.get(key, default)\<close>: only a dict has the method.\<close>

fun py_get :: "json \<Rightarrow> string \<Rightarrow> json \<Rightarrow> exn + json" where
  "py_get (JDict kvs) k d = Inr (case map_of kvs k of Some v \<Rightarrow> v | None \<Rightarrow> d)"
| "py_get v k d =
     Inl (Exn ''AttributeError'' (quoted (type_name v) @ '' object has no attribute '' @ quoted ''get''))"

text \<open>Truth value of a value in a condition. A float is false exactly when it is \<open>+0.0\<close> or \<open>-0.0\<close>.\<close>

fun truthy :: "json \<Rightarrow> bool" where
  "truthy JNull = False"
| "truthy (JBool b) = b"
| "truthy (JInt i) = (i \<noteq> 0)"
| "truthy (JFloat w) = (push_bit 1 w \<noteq> 0)"
| "truthy (JStr s) = (s \<noteq> [])"
| "truthy (JList xs) = (xs \<noteq> [])"
| "truthy (JDict kvs) = (kvs \<noteq> [])"

text \<open>A list or a dict cannot be hashed, so it cannot be looked up in a dict.\<close>

fun hashable :: "json \<Rightarrow> bool" where
  "hashable (JList _) = False"
| "hashable (JDict _) = False"
| "hashable _ = True"

text \<open>
  \<open>TABLE.get(key, default)\<close> on one of the fixed tables, whose keys and values are
  strings: an unhashable key raises \<open>TypeError\<close>, a key that is not a string of the table
  gives the default.
\<close>

fun table_get :: "(string \<times> string) list \<Rightarrow> json \<Rightarrow> string \<Rightarrow> exn + json" where
  "table_get tbl (JStr s) d = Inr (JStr (case map_of tbl s of Some v \<Rightarrow> v | None \<Rightarrow> d))"
| "table_get tbl v d =
     (if hashable v then Inr (JStr d)
      else Inl (Exn ''TypeError'' (''unhashable type: '' @ quoted (type_name v))))"

text \<open>\<open>d[key] = value\<close> on a dict under construction.\<close>

definition dict_set :: "(string \<times> json) list \<Rightarrow> string \<Rightarrow> json \<Rightarrow> (string \<times> json) list" where
  "dict_set kvs k v = AList.update k v kvs"

text \<open>Iterating a value: a list gives its elements, a string its characters, a dict its keys.\<close>

fun py_iter :: "json \<Rightarrow> exn + json list" where
  "py_iter (JList xs) = Inr xs"
| "py_iter (JStr s) = Inr (map (\<lambda>c. JStr [c]) s)"
| "py_iter (JDict kvs) = Inr (map (\<lambda>kv. JStr (fst kv)) kvs)"
| "py_iter v = Inl (Exn ''TypeError'' (quoted (type_name v) @ '' object is not iterable''))"

section \<open>The external collaborators\<close>

text \<open>What the HTTP client is given, and what it gives back.\<close>

record request =
  req_method :: string
  req_url :: string
  req_headers :: "(string \<times> string) list"
  req_content :: string
  req_params :: "(string \<times> string) list"
  req_data :: "(string \<times> string) list"
  req_auth :: "(string \<times> string) option"

text \<open>
  A response: \<open>status_code\<close>, \<open>text\<close>, and the outcome of \<open>response.json()\<close>, the decoder of
  the client library run on the body (it raises on a body that is not JSON).
\<close>

record response =
  status_code :: int
  body_text :: string
  json_result :: "exn + json"

text \<open>
  The environment of a call: everything the adapter consumes and does not implement.
  \<^item> \<open>get_httpx_client\<close> hands out the shared client, here the function that performs a
    request and raises on a transport failure;
  \<^item> \<open>get_br_symbol\<close> and \<open>get_oa_symbol\<close> are the lookups of the symbol store, each
    giving a symbol or nothing;
  \<^item> \<open>getenv\<close> is the process environment;
  \<^item> \<open>json_dumps\<close> serialises a record;
  \<^item> the four conversions are those of the builtins \<open>int\<close> and \<open>float\<close> on strings and
    floats (parsing and rounding are the runtime's).
\<close>

record env =
  get_httpx_client :: "exn + (request \<Rightarrow> exn + response)"
  get_br_symbol :: "json \<Rightarrow> json \<Rightarrow> exn + string option"
  get_oa_symbol :: "json \<Rightarrow> json \<Rightarrow> exn + string option"
  getenv :: "string \<Rightarrow> string option"
  json_dumps :: "json \<Rightarrow> string"
  str_to_int :: "string \<Rightarrow> exn + int"
  float_to_int :: "64 word \<Rightarrow> exn + int"
  str_to_float :: "string \<Rightarrow> exn + 64 word"
  int_to_float :: "int \<Rightarrow> exn + 64 word"

text \<open>The builtins \<open>int(x)\<close> and \<open>float(x)\<close>.\<close>

fun py_int :: "env \<Rightarrow> json \<Rightarrow> exn + json" where
  "py_int E (JInt i) = Inr (JInt i)"
| "py_int E (JBool b) = Inr (JInt (if b then 1 else 0))"
| "py_int E (JFloat w) = andThen (float_to_int E w) (\<lambda>i. Inr (JInt i))"
| "py_int E (JStr s) = andThen (str_to_int E s) (\<lambda>i. Inr (JInt i))"
| "py_int E v =
     Inl (Exn ''TypeError''
       (''int() argument must be a string, a bytes-like object or a real number, not ''
        @ quoted (type_name v)))"

fun py_float :: "env \<Rightarrow> json \<Rightarrow> exn + json" where
  "py_float E (JFloat w) = Inr (JFloat w)"
| "py_float E (JInt i) = andThen (int_to_float E i) (\<lambda>w. Inr (JFloat w))"
| "py_float E (JBool b) = andThen (int_to_float E (if b then 1 else 0)) (\<lambda>w. Inr (JFloat w))"
| "py_float E (JStr s) = andThen (str_to_float E s) (\<lambda>w. Inr (JFloat w))"
| "py_float E v =
     Inl (Exn ''TypeError''
       (''float() argument must be a string or a real number, not '' @ quoted (type_name v)))"

text \<open>\<open>if not s: s = fallback\<close> on the result of a symbol lookup.\<close>

fun or_else :: "string option \<Rightarrow> json \<Rightarrow> json" where
  "or_else None fallback = fallback"
| "or_else (Some s) fallback = (if s \<noteq> [] then JStr s else fallback)"

section \<open>mapping/transform_data.py\<close>

definition ORDER_TYPE_MAP :: "(string \<times> string) list" where
  "ORDER_TYPE_MAP =
     [(''MARKET'', ''MKT''), (''LIMIT'', ''LMT''), (''STOP_LOSS'', ''SL''),
      (''STOP_LOSS_LIMIT'', ''SLL'')]"

text \<open>\<open>{v: k for k, v in ORDER_TYPE_MAP.items()}\<close>: one insertion per item, in order.\<close>

definition ORDER_TYPE_REVERSE_MAP :: "(string \<times> string) list" where
  "ORDER_TYPE_REVERSE_MAP = foldl (\<lambda>acc kv. AList.update (snd kv) (fst kv) acc) [] ORDER_TYPE_MAP"

definition PRODUCT_MAP :: "(string \<times> string) list" where
  "PRODUCT_MAP =
     [(''MIS'', ''MIS''), (''INTRADAY'', ''MIS''), (''CNC'', ''CNC''), (''DELIVERY'', ''CNC''),
      (''NRML'', ''NRML''), (''MARGIN'', ''NRML'')]"

definition PRODUCT_REVERSE_MAP :: "(string \<times> string) list" where
  "PRODUCT_REVERSE_MAP = [(''MIS'', ''MIS''), (''CNC'', ''CNC''), (''NRML'', ''NRML'')]"

definition SIDE_MAP :: "(string \<times> string) list" where
  "SIDE_MAP = [(''BUY'', ''BUY''), (''SELL'', ''SELL'')]"

definition VALIDITY_MAP :: "(string \<times> string) list" where
  "VALIDITY_MAP = [(''DAY'', ''DAY''), (''IOC'', ''IOC''), (''GTC'', ''GTC'')]"

text \<open>
  \<open>map_order_to_hdfc\<close>. The entries of the record are evaluated in the order they are
  written, so the first failing one decides the exception. The handler logs and re-raises,
  so the function raises whatever its body raises. The three optional fields are added
  after the seven fixed ones, each only when its input is truthy.
\<close>

definition add_optional ::
  "json \<Rightarrow> string \<Rightarrow> (json \<Rightarrow> exn + json) \<Rightarrow> (string \<times> json) list \<Rightarrow> exn + (string \<times> json) list" where
  "add_optional order k conv hdfc_order =
     andThen (py_get order k JNull) (\<lambda>v.
       if truthy v then andThen (conv v) (\<lambda>c. Inr (dict_set hdfc_order k c))
       else Inr hdfc_order)"

definition map_order_to_hdfc :: "env \<Rightarrow> json \<Rightarrow> exn + json" where
  "map_order_to_hdfc E order =
     andThen (py_get order ''symbol'' (JStr [])) (\<lambda>symbol.
     andThen (py_get order ''exchange'' (JStr [])) (\<lambda>exchange.
     andThen (get_br_symbol E symbol exchange) (\<lambda>found.
     let br_symbol = or_else found symbol in
     andThen (py_get order ''side'' (JStr ''BUY'')) (\<lambda>side_in.
     andThen (table_get SIDE_MAP side_in ''BUY'') (\<lambda>side.
     andThen (py_get order ''quantity'' (JInt 0)) (\<lambda>quantity_in.
     andThen (py_int E quantity_in) (\<lambda>quantity.
     andThen (py_get order ''order_type'' (JStr ''MARKET'')) (\<lambda>order_type_in.
     andThen (table_get ORDER_TYPE_MAP order_type_in ''MKT'') (\<lambda>order_type.
     andThen (py_get order ''product'' (JStr ''MIS'')) (\<lambda>product_in.
     andThen (table_get PRODUCT_MAP product_in ''MIS'') (\<lambda>product.
     andThen (py_get order ''validity'' (JStr ''DAY'')) (\<lambda>validity_in.
     andThen (table_get VALIDITY_MAP validity_in ''DAY'') (\<lambda>validity.
     let hdfc_order =
       [(''symbol'', br_symbol), (''exchange'', exchange), (''side'', side),
        (''quantity'', quantity), (''order_type'', order_type), (''product'', product),
        (''validity'', validity)] in
     andThen (add_optional order ''price'' (py_float E) hdfc_order) (\<lambda>hdfc_order.
     andThen (add_optional order ''stop_price'' (py_float E) hdfc_order) (\<lambda>hdfc_order.
     andThen (add_optional order ''disclosed_quantity'' (py_int E) hdfc_order) (\<lambda>hdfc_order.
     Inr (JDict hdfc_order)))))))))))))))))"

text \<open>
  The four reverse mappers. Each is a \<open>try\<close> block that builds the platform record, and a
  handler that logs and returns the record it was given.
\<close>

definition map_hdfc_order_response_body :: "env \<Rightarrow> json \<Rightarrow> exn + json" where
  "map_hdfc_order_response_body E hdfc_order =
     andThen (py_get hdfc_order ''exchange'' (JStr [])) (\<lambda>exchange.
     andThen (py_get hdfc_order ''symbol'' (JStr [])) (\<lambda>br_symbol.
     andThen (get_oa_symbol E br_symbol exchange) (\<lambda>found.
     let oa_symbol = or_else found br_symbol in
     andThen (py_get hdfc_order ''order_id'' (JStr [])) (\<lambda>order_id.
     andThen (py_get hdfc_order ''side'' (JStr [])) (\<lambda>side.
     andThen (py_get hdfc_order ''quantity'' (JInt 0)) (\<lambda>quantity.
     andThen (py_get hdfc_order ''price'' (JInt 0)) (\<lambda>price.
     andThen (py_get hdfc_order ''order_type'' (JStr ''MKT'')) (\<lambda>order_type_in.
     andThen (table_get ORDER_TYPE_REVERSE_MAP order_type_in ''MARKET'') (\<lambda>order_type.
     andThen (py_get hdfc_order ''product'' (JStr ''MIS'')) (\<lambda>product_in.
     andThen (table_get PRODUCT_REVERSE_MAP product_in ''MIS'') (\<lambda>product.
     andThen (py_get hdfc_order ''status'' (JStr [])) (\<lambda>order_status.
     andThen (py_get hdfc_order ''filled_quantity'' (JInt 0)) (\<lambda>filled_quantity.
     andThen (py_get hdfc_order ''pending_quantity'' (JInt 0)) (\<lambda>pending_quantity.
     andThen (py_get hdfc_order ''average_price'' (JInt 0)) (\<lambda>average_price.
     andThen (py_get hdfc_order ''created_at'' (JStr [])) (\<lambda>timestamp.
     Inr (JDict
       [(''order_id'', order_id), (''symbol'', oa_symbol), (''exchange'', exchange),
        (''side'', side), (''quantity'', quantity), (''price'', price),
        (''order_type'', order_type), (''product'', product),
        (''order_status'', order_status), (''filled_quantity'', filled_quantity),
        (''pending_quantity'', pending_quantity), (''average_price'', average_price),
        (''timestamp'', timestamp)])))))))))))))))))"

definition map_hdfc_order_response :: "env \<Rightarrow> json \<Rightarrow> json" where
  "map_hdfc_order_response E hdfc_order =
     (case map_hdfc_order_response_body E hdfc_order of
        Inr mapped \<Rightarrow> mapped
      | Inl e \<Rightarrow> hdfc_order)"

definition map_hdfc_trade_response_body :: "env \<Rightarrow> json \<Rightarrow> exn + json" where
  "map_hdfc_trade_response_body E hdfc_trade =
     andThen (py_get hdfc_trade ''exchange'' (JStr [])) (\<lambda>exchange.
     andThen (py_get hdfc_trade ''symbol'' (JStr [])) (\<lambda>br_symbol.
     andThen (get_oa_symbol E br_symbol exchange) (\<lambda>found.
     let oa_symbol = or_else found br_symbol in
     andThen (py_get hdfc_trade ''trade_id'' (JStr [])) (\<lambda>trade_id.
     andThen (py_get hdfc_trade ''order_id'' (JStr [])) (\<lambda>order_id.
     andThen (py_get hdfc_trade ''side'' (JStr [])) (\<lambda>side.
     andThen (py_get hdfc_trade ''quantity'' (JInt 0)) (\<lambda>quantity.
     andThen (py_get hdfc_trade ''price'' (JInt 0)) (\<lambda>price.
     andThen (py_get hdfc_trade ''executed_at'' (JStr [])) (\<lambda>timestamp.
     Inr (JDict
       [(''trade_id'', trade_id), (''order_id'', order_id), (''symbol'', oa_symbol),
        (''exchange'', exchange), (''side'', side), (''quantity'', quantity),
        (''price'', price), (''timestamp'', timestamp)]))))))))))"

definition map_hdfc_trade_response :: "env \<Rightarrow> json \<Rightarrow> json" where
  "map_hdfc_trade_response E hdfc_trade =
     (case map_hdfc_trade_response_body E hdfc_trade of
        Inr mapped \<Rightarrow> mapped
      | Inl e \<Rightarrow> hdfc_trade)"

definition map_hdfc_position_body :: "env \<Rightarrow> json \<Rightarrow> exn + json" where
  "map_hdfc_position_body E hdfc_pos =
     andThen (py_get hdfc_pos ''exchange'' (JStr [])) (\<lambda>exchange.
     andThen (py_get hdfc_pos ''symbol'' (JStr [])) (\<lambda>br_symbol.
     andThen (get_oa_symbol E br_symbol exchange) (\<lambda>found.
     let oa_symbol = or_else found br_symbol in
     andThen (py_get hdfc_pos ''quantity'' (JInt 0)) (\<lambda>quantity.
     andThen (py_get hdfc_pos ''product'' (JStr ''MIS'')) (\<lambda>product_in.
     andThen (table_get PRODUCT_REVERSE_MAP product_in ''MIS'') (\<lambda>product.
     andThen (py_get hdfc_pos ''average_price'' (JInt 0)) (\<lambda>price.
     andThen (py_get hdfc_pos ''pnl'' (JInt 0)) (\<lambda>pnl.
     andThen (py_get hdfc_pos ''pnl_percentage'' (JInt 0)) (\<lambda>pnl_percentage.
     Inr (JDict
       [(''symbol'', oa_symbol), (''exchange'', exchange), (''quantity'', quantity),
        (''product'', product), (''price'', price), (''pnl'', pnl),
        (''pnl_percentage'', pnl_percentage)]))))))))))"

definition map_hdfc_position :: "env \<Rightarrow> json \<Rightarrow> json" where
  "map_hdfc_position E hdfc_pos =
     (case map_hdfc_position_body E hdfc_pos of
        Inr mapped \<Rightarrow> mapped
      | Inl e \<Rightarrow> hdfc_pos)"

definition map_hdfc_holding_body :: "env \<Rightarrow> json \<Rightarrow> exn + json" where
  "map_hdfc_holding_body E hdfc_holding =
     andThen (py_get hdfc_holding ''exchange'' (JStr [])) (\<lambda>exchange.
     andThen (py_get hdfc_holding ''symbol'' (JStr [])) (\<lambda>br_symbol.
     andThen (get_oa_symbol E br_symbol exchange) (\<lambda>found.
     let oa_symbol = or_else found br_symbol in
     andThen (py_get hdfc_holding ''quantity'' (JInt 0)) (\<lambda>quantity.
     andThen (py_get hdfc_holding ''average_price'' (JInt 0)) (\<lambda>price.
     andThen (py_get hdfc_holding ''value'' (JInt 0)) (\<lambda>val.
     andThen (py_get hdfc_holding ''pnl'' (JInt 0)) (\<lambda>pnl.
     Inr (JDict
       [(''symbol'', oa_symbol), (''exchange'', exchange), (''quantity'', quantity),
        (''price'', price), (''value'', val), (''pnl'', pnl)]))))))))"

definition map_hdfc_holding :: "env \<Rightarrow> json \<Rightarrow> json" where
  "map_hdfc_holding E hdfc_holding =
     (case map_hdfc_holding_body E hdfc_holding of
        Inr mapped \<Rightarrow> mapped
      | Inl e \<Rightarrow> hdfc_holding)"

section \<open>api/baseurl.py\<close>

definition BASE_URL :: string where
  "BASE_URL = ''https://developer.hdfcsec.com/oapi/v1''"

definition get_url :: "string \<Rightarrow> string" where
  "get_url endpoint = BASE_URL @ endpoint"

section \<open>api/order_api.py\<close>

definition status_success :: json where
  "status_success = JDict [(''status'', JStr ''success'')]"

definition status_error_message :: "exn \<Rightarrow> json" where
  "status_error_message e = JDict [(''status'', JStr ''error''), (''message'', JStr (message e))]"

definition status_error_list :: "string \<Rightarrow> json" where
  "status_error_list k = JDict [(''status'', JStr ''error''), (k, JList [])]"

definition blank_request :: request where
  "blank_request =
     \<lparr>req_method = [], req_url = [], req_headers = [], req_content = [], req_params = [],
      req_data = [], req_auth = None\<rparr>"

text \<open>
  \<open>get_api_response\<close> of the order module. The client and the URL are obtained before the
  \<open>try\<close> block; the request, the decoding of the body and the check of the method are
  inside it.
  The assignment \<open>response.status = response.status_code\<close> sets an attribute that
  nothing reads afterwards; logging has no part in the result.
\<close>

definition get_api_response :: "env \<Rightarrow> string \<Rightarrow> string \<Rightarrow> string \<Rightarrow> string \<Rightarrow> exn + json" where
  "get_api_response E endpoint auth method payload =
     andThen (get_httpx_client E) (\<lambda>client.
     let headers =
           [(''Authorization'', ''Bearer '' @ auth), (''Content-Type'', ''application/json''),
            (''Accept'', ''application/json'')];
         url = get_url endpoint;
         req = blank_request\<lparr>req_method := method, req_url := url, req_headers := headers\<rparr>
     in
     try_except
       (andThen
          (if method = ''GET'' then client req
           else if method = ''POST'' then client (req\<lparr>req_content := payload\<rparr>)
           else if method = ''PUT'' then client (req\<lparr>req_content := payload\<rparr>)
           else if method = ''DELETE'' then client req
           else Inl (Exn ''ValueError'' (''Unsupported method: '' @ method)))
          (\<lambda>response.
             if status_code response \<in> {200, 201} then
               (if body_text response \<noteq> [] then json_result response else Inr status_success)
             else
               (if body_text response \<noteq> [] then json_result response else Inr (JDict []))))
       (\<lambda>e. Inr (status_error_message e)))"

definition place_order :: "env \<Rightarrow> json \<Rightarrow> string \<Rightarrow> exn + json" where
  "place_order E order auth =
     try_except
       (andThen (map_order_to_hdfc E order) (\<lambda>hdfc_order.
        let payload = json_dumps E hdfc_order in
        andThen (get_api_response E ''/orders'' auth ''POST'' payload) (\<lambda>response.
        Inr (map_hdfc_order_response E response))))
       (\<lambda>e. Inr (status_error_message e))"

definition modify_order :: "env \<Rightarrow> string \<Rightarrow> json \<Rightarrow> string \<Rightarrow> exn + json" where
  "modify_order E order_id order auth =
     try_except
       (andThen (map_order_to_hdfc E order) (\<lambda>hdfc_order.
        let payload = json_dumps E hdfc_order in
        andThen (get_api_response E (''/orders/'' @ order_id) auth ''PUT'' payload) (\<lambda>response.
        Inr (map_hdfc_order_response E response))))
       (\<lambda>e. Inr (status_error_message e))"

definition cancel_order :: "env \<Rightarrow> string \<Rightarrow> string \<Rightarrow> exn + json" where
  "cancel_order E order_id auth =
     try_except
       (andThen (get_api_response E (''/orders/'' @ order_id) auth ''DELETE'' []) (\<lambda>response.
        Inr response))
       (\<lambda>e. Inr (status_error_message e))"

definition get_order :: "env \<Rightarrow> string \<Rightarrow> string \<Rightarrow> exn + json" where
  "get_order E order_id auth =
     try_except
       (andThen (get_api_response E (''/orders/'' @ order_id) auth ''GET'' []) (\<lambda>response.
        Inr (map_hdfc_order_response E response)))
       (\<lambda>e. Inr (status_error_message e))"

text \<open>
  The four listings. \<open>response.get("status") == "error"\<close> holds exactly when the entry is the
  string \<open>error\<close>; the list comprehension iterates whatever the entry of the list key is.
\<close>

definition get_order_book :: "env \<Rightarrow> string \<Rightarrow> exn + json" where
  "get_order_book E auth =
     try_except
       (andThen (get_api_response E ''/orders'' auth ''GET'' []) (\<lambda>response.
        andThen (py_get response ''status'' JNull) (\<lambda>status.
        if status = JStr ''error'' then Inr (status_error_list ''orders'')
        else
          andThen (py_get response ''orders'' (JList [])) (\<lambda>orders.
          andThen (py_iter orders) (\<lambda>items.
          let transformed_orders = map (map_hdfc_order_response E) items in
          Inr (JDict [(''status'', JStr ''success''), (''orders'', JList transformed_orders)]))))))
       (\<lambda>e. Inr (status_error_list ''orders''))"

definition get_trade_book :: "env \<Rightarrow> string \<Rightarrow> exn + json" where
  "get_trade_book E auth =
     try_except
       (andThen (get_api_response E ''/trades/book'' auth ''GET'' []) (\<lambda>response.
        andThen (py_get response ''status'' JNull) (\<lambda>status.
        if status = JStr ''error'' then Inr (status_error_list ''trades'')
        else
          andThen (py_get response ''trades'' (JList [])) (\<lambda>trades.
          andThen (py_iter trades) (\<lambda>items.
          let transformed_trades = map (map_hdfc_trade_response E) items in
          Inr (JDict [(''status'', JStr ''success''), (''trades'', JList transformed_trades)]))))))
       (\<lambda>e. Inr (status_error_list ''trades''))"

definition get_positions :: "env \<Rightarrow> string \<Rightarrow> exn + json" where
  "get_positions E auth =
     try_except
       (andThen (get_api_response E ''/positions'' auth ''GET'' []) (\<lambda>response.
        andThen (py_get response ''status'' JNull) (\<lambda>status.
        if status = JStr ''error'' then Inr (status_error_list ''positions'')
        else
          andThen (py_get response ''positions'' (JList [])) (\<lambda>positions.
          andThen (py_iter positions) (\<lambda>items.
          let transformed_positions = map (map_hdfc_position E) items in
          Inr (JDict
            [(''status'', JStr ''success''), (''positions'', JList transformed_positions)]))))))
       (\<lambda>e. Inr (status_error_list ''positions''))"

definition get_holdings :: "env \<Rightarrow> string \<Rightarrow> exn + json" where
  "get_holdings E auth =
     try_except
       (andThen (get_api_response E ''/holdings'' auth ''GET'' []) (\<lambda>response.
        andThen (py_get response ''status'' JNull) (\<lambda>status.
        if status = JStr ''error'' then Inr (status_error_list ''holdings'')
        else
          andThen (py_get response ''holdings'' (JList [])) (\<lambda>holdings.
          andThen (py_iter holdings) (\<lambda>items.
          let transformed_holdings = map (map_hdfc_holding E) items in
          Inr (JDict
            [(''status'', JStr ''success''), (''holdings'', JList transformed_holdings)]))))))
       (\<lambda>e. Inr (status_error_list ''holdings''))"

text \<open>
  \<open>get_open_position\<close>. The loop returns the first position whose \<open>tradingsymbol\<close> entry
  equals the looked-up broker symbol (an absent entry and an empty lookup are both \<open>None\<close>)
  and whose \<open>exchange\<close> entry equals the queried exchange. \<open>producttype\<close> is a parameter of
  the function and is not used in its body.
\<close>

fun symbol_json :: "string option \<Rightarrow> json" where
  "symbol_json None = JNull"
| "symbol_json (Some s) = JStr s"

fun scan_positions :: "json list \<Rightarrow> json \<Rightarrow> string \<Rightarrow> exn + json" where
  "scan_positions [] br_symbol exchange = Inr (JDict [])"
| "scan_positions (position # rest) br_symbol exchange =
     andThen (py_get position ''tradingsymbol'' JNull) (\<lambda>ts.
       if ts = br_symbol then
         andThen (py_get position ''exchange'' JNull) (\<lambda>ex.
           if ex = JStr exchange then Inr position
           else scan_positions rest br_symbol exchange)
       else scan_positions rest br_symbol exchange)"

definition get_open_position :: "env \<Rightarrow> string \<Rightarrow> string \<Rightarrow> string \<Rightarrow> string \<Rightarrow> exn + json" where
  "get_open_position E tradingsymbol exchange producttype auth =
     try_except
       (andThen (get_positions E auth) (\<lambda>positions_response.
        andThen (py_get positions_response ''positions'' (JList [])) (\<lambda>positions.
        andThen (get_br_symbol E (JStr tradingsymbol) (JStr exchange)) (\<lambda>br_symbol.
        andThen (py_iter positions) (\<lambda>items.
        scan_positions items (symbol_json br_symbol) exchange)))))
       (\<lambda>e. Inr (JDict []))"

section \<open>api/data_api.py\<close>

text \<open>
  \<open>get_api_response\<close> of the market data module: the body is decoded whatever the status
  code is, and an empty body gives an empty record.
\<close>

definition data_api_get_api_response ::
  "env \<Rightarrow> string \<Rightarrow> string \<Rightarrow> string \<Rightarrow> (string \<times> string) list \<Rightarrow> exn + json" where
  "data_api_get_api_response E endpoint auth method params =
     andThen (get_httpx_client E) (\<lambda>client.
     let headers =
           [(''Authorization'', ''Bearer '' @ auth), (''Content-Type'', ''application/json'')];
         url = get_url endpoint;
         req = blank_request\<lparr>req_method := method, req_url := url, req_headers := headers\<rparr>
     in
     try_except
       (andThen
          (if method = ''GET'' then client (req\<lparr>req_params := params\<rparr>) else client req)
          (\<lambda>response.
             if body_text response \<noteq> [] then json_result response else Inr (JDict [])))
       (\<lambda>e. Inr (status_error_message e)))"


definition get_history ::
  "env \<Rightarrow> string \<Rightarrow> string \<Rightarrow> string \<Rightarrow> string \<Rightarrow> string \<Rightarrow> string \<Rightarrow> exn + json" where
  "get_history E symbol exchange interval start_date end_date auth =
     try_except
       (let params =
              [(''symbol'', symbol), (''exchange'', exchange), (''interval'', interval),
               (''start_date'', start_date), (''end_date'', end_date)] in
        andThen (data_api_get_api_response E ''/history'' auth ''GET'' params) (\<lambda>response.
        Inr response))
       (\<lambda>e. Inr (JDict [(''status'', JStr ''error''), (''candles'', JList [])]))"


section \<open>api/auth_api.py\<close>

definition AUTH_BASE_URL :: string where
  "AUTH_BASE_URL = ''https://developer.hdfcsec.com''"

text \<open>\<open>os.getenv(name, default)\<close>.\<close>

definition os_getenv :: "env \<Rightarrow> string \<Rightarrow> string \<Rightarrow> string" where
  "os_getenv E name dflt = (case getenv E name of Some v \<Rightarrow> v | None \<Rightarrow> dflt)"

text \<open>
  The token exchange and the refresh return the decoded token body or \<open>None\<close>. The whole
  body of each function, the reading of the configuration included, is inside its
  \<open>try\<close> block.
\<close>

definition get_access_token :: "env \<Rightarrow> string \<Rightarrow> exn + json option" where
  "get_access_token E authorization_code =
     try_except
       (let api_key = os_getenv E ''BROKER_API_KEY'' [];
            api_secret = os_getenv E ''BROKER_API_SECRET'' [];
            redirect_uri = os_getenv E ''BROKER_REDIRECT_URI'' ''http://localhost:8000/auth/callback''
        in
        if api_key = [] \<or> api_secret = [] then Inr None
        else
          andThen (get_httpx_client E) (\<lambda>client.
          let token_url = AUTH_BASE_URL @ ''/oauth/token'';
              payload =
                [(''grant_type'', ''authorization_code''), (''code'', authorization_code),
                 (''redirect_uri'', redirect_uri), (''client_id'', api_key),
                 (''client_secret'', api_secret)]
          in
          andThen
            (client (blank_request\<lparr>req_method := ''POST'', req_url := token_url,
               req_data := payload, req_auth := Some (api_key, api_secret)\<rparr>))
            (\<lambda>response.
               if status_code response = 200 then
                 andThen (json_result response) (\<lambda>body. Inr (Some body))
               else Inr None)))
       (\<lambda>e. Inr None)"

definition refresh_access_token :: "env \<Rightarrow> string \<Rightarrow> exn + json option" where
  "refresh_access_token E refresh_token =
     try_except
       (let api_key = os_getenv E ''BROKER_API_KEY'' [];
            api_secret = os_getenv E ''BROKER_API_SECRET'' []
        in
        if api_key = [] \<or> api_secret = [] then Inr None
        else
          andThen (get_httpx_client E) (\<lambda>client.
          let token_url = AUTH_BASE_URL @ ''/oauth/token'';
              payload =
                [(''grant_type'', ''refresh_token''), (''refresh_token'', refresh_token),
                 (''client_id'', api_key), (''client_secret'', api_secret)]
          in
          andThen
            (client (blank_request\<lparr>req_method := ''POST'', req_url := token_url,
               req_data := payload, req_auth := Some (api_key, api_secret)\<rparr>))
            (\<lambda>response.
               if status_code response = 200 then
                 andThen (json_result response) (\<lambda>body. Inr (Some body))
               else Inr None)))
       (\<lambda>e. Inr None)"

section \<open>Concrete environments\<close>

text \<open>
  A symbol store that knows one instrument, \<open>INFY\<close> on \<open>NSE\<close>, whose broker symbol is
  \<open>INFY-EQ\<close>, and finds nothing else.
\<close>

definition demo_br_symbol :: "json \<Rightarrow> json \<Rightarrow> exn + string option" where
  "demo_br_symbol symbol exchange =
     Inr (if symbol = JStr ''INFY'' \<and> exchange = JStr ''NSE'' then Some ''INFY-EQ'' else None)"

definition demo_oa_symbol :: "json \<Rightarrow> json \<Rightarrow> exn + string option" where
  "demo_oa_symbol br_symbol exchange =
     Inr (if br_symbol = JStr ''INFY-EQ'' \<and> exchange = JStr ''NSE'' then Some ''INFY'' else None)"

definition no_conversion :: exn where
  "no_conversion = Exn ''ValueError'' ''conversion not available''"

text \<open>
  An environment around a given client: the one-instrument symbol store, no credentials
  configured, and conversions of strings and floats that always raise (no input below
  needs them).
\<close>

definition demo_env :: "exn + (request \<Rightarrow> exn + response) \<Rightarrow> env" where
  "demo_env client =
     \<lparr>get_httpx_client = client,
      get_br_symbol = demo_br_symbol,
      get_oa_symbol = demo_oa_symbol,
      getenv = (\<lambda>name. None),
      json_dumps = (\<lambda>v. []),
      str_to_int = (\<lambda>s. Inl no_conversion),
      float_to_int = (\<lambda>w. Inl no_conversion),
      str_to_float = (\<lambda>s. Inl no_conversion),
      int_to_float = (\<lambda>i. Inl no_conversion)\<rparr>"

text \<open>A client that answers every request with the same response, and one that always fails.\<close>

definition answering :: "response \<Rightarrow> exn + (request \<Rightarrow> exn + response)" where
  "answering r = Inr (\<lambda>req. Inr r)"

definition failing :: "exn \<Rightarrow> exn + (request \<Rightarrow> exn + response)" where
  "failing e = Inr (\<lambda>req. Inl e)"

definition empty_response :: "int \<Rightarrow> response" where
  "empty_response code =
     \<lparr>status_code = code, body_text = [],
      json_result = Inl (Exn ''JSONDecodeError'' ''Expecting value: line 1 column 1 (char 0)'')\<rparr>"

definition timeout_error :: exn where
  "timeout_error = Exn ''ConnectTimeout'' ''timed out''"

text \<open>An order as the docstring of \<open>place_order\<close> gives it; the price is the float 1500.0.\<close>

definition sample_order :: json where
  "sample_order =
     JDict [(''symbol'', JStr ''INFY''), (''exchange'', JStr ''NSE''),
            (''price'', JFloat 0x4097700000000000), (''quantity'', JInt 1),
            (''side'', JStr ''BUY''), (''order_type'', JStr ''MARKET''), (''product'', JStr ''MIS'')]"




text \<open>
  A positions response of the broker with one position, in INFY-EQ on NSE. Of the text
  of the body only its being non-empty is read; the record is what the decoder gives.
\<close>

definition positions_response :: response where
  "positions_response =
     \<lparr>status_code = 200,
      body_text = ''{positions: [{symbol: INFY-EQ, exchange: NSE, ...}]}'',
      json_result = Inr (JDict [(''positions'', JList
        [JDict [(''symbol'', JStr ''INFY-EQ''), (''exchange'', JStr ''NSE''),
                (''quantity'', JInt 10), (''product'', JStr ''MIS''),
                (''average_price'', JInt 1500), (''pnl'', JInt 25),
                (''pnl_percentage'', JInt 1)]])])\<rparr>"




section \<open>Predicates of the properties\<close>









section \<open>Sequencing and lookups\<close>

lemma andThen_Inr [simp]: "andThen (Inr x) f = f x"
  by (simp add: andThen_def)

lemma andThen_Inl [simp]: "andThen (Inl e) f = Inl e"
  by (simp add: andThen_def)

lemma try_except_Inr [simp]: "try_except (Inr x) h = Inr x"
  by (simp add: try_except_def)

lemma try_except_Inl [simp]: "try_except (Inl e) h = h e"
  by (simp add: try_except_def)

lemma andThen_eq_Inr: "andThen m f = Inr y \<longleftrightarrow> (\<exists>x. m = Inr x \<and> f x = Inr y)"
  by (cases m) simp_all



lemma table_get_raises: "\<not> hashable v \<Longrightarrow> \<exists>e. table_get tbl v d = Inl e"
  by (cases v) simp_all

lemma table_get_hashable: "table_get tbl v d = Inr x \<Longrightarrow> hashable v"
  by (cases v) (simp_all split: if_splits)

lemma table_get_Inl: "table_get tbl v d = Inl e \<Longrightarrow> \<not> hashable v"
  by (cases v) (simp_all split: if_splits)

lemma ORDER_TYPE_REVERSE_MAP_items:
  "ORDER_TYPE_REVERSE_MAP =
     [(''MKT'', ''MARKET''), (''LMT'', ''LIMIT''), (''SL'', ''STOP_LOSS''),
      (''SLL'', ''STOP_LOSS_LIMIT'')]"
  by (simp add: ORDER_TYPE_REVERSE_MAP_def ORDER_TYPE_MAP_def)

section \<open>The reverse mappers fall back to their input\<close>

text \<open>
  When the reverse mapper of orders is given a record, its body raises exactly when the
  lookup of the symbol store raises or the order type or the product cannot be hashed.
  Given anything that is not a record, each of the four mappers returns it as it is.
\<close>

lemma order_body_raises:
  "(\<exists>e. map_hdfc_order_response_body E (JDict kvs) = Inl e) \<longleftrightarrow>
     (\<exists>e. get_oa_symbol E (case map_of kvs ''symbol'' of Some v \<Rightarrow> v | None \<Rightarrow> JStr [])
             (case map_of kvs ''exchange'' of Some v \<Rightarrow> v | None \<Rightarrow> JStr []) = Inl e)
     \<or> \<not> hashable (case map_of kvs ''order_type'' of Some v \<Rightarrow> v | None \<Rightarrow> JStr ''MKT'')
     \<or> \<not> hashable (case map_of kvs ''product'' of Some v \<Rightarrow> v | None \<Rightarrow> JStr ''MIS'')"
  unfolding map_hdfc_order_response_body_def
  by (auto simp: andThen_def Let_def split: sum.splits
      dest: table_get_hashable table_get_raises table_get_Inl)

lemma not_dict_unchanged:
  "\<forall>kvs. r \<noteq> JDict kvs \<Longrightarrow>
     map_hdfc_order_response E r = r \<and> map_hdfc_trade_response E r = r
     \<and> map_hdfc_position E r = r \<and> map_hdfc_holding E r = r"
  by (cases r) (simp_all add: map_hdfc_order_response_def map_hdfc_trade_response_def
      map_hdfc_position_def map_hdfc_holding_def map_hdfc_order_response_body_def
      map_hdfc_trade_response_body_def map_hdfc_position_body_def map_hdfc_holding_body_def)

text \<open>
  C8. For every broker record, when a step of the reverse mapping of an order, a trade, a
  position or a holding raises an exception, the mapper does not fail: it returns the
  record it was given, unchanged.
\<close>

theorem reverse_mapping_fallback:
  "(map_hdfc_order_response_body E r = Inl e \<longrightarrow> map_hdfc_order_response E r = r)
   \<and> (map_hdfc_trade_response_body E r = Inl e \<longrightarrow> map_hdfc_trade_response E r = r)
   \<and> (map_hdfc_position_body E r = Inl e \<longrightarrow> map_hdfc_position E r = r)
   \<and> (map_hdfc_holding_body E r = Inl e \<longrightarrow> map_hdfc_holding E r = r)"
  by (simp add: map_hdfc_order_response_def map_hdfc_trade_response_def
      map_hdfc_position_def map_hdfc_holding_def)

text \<open>
  Two inputs on which a step raises: a list in place of an order record (it has no
  \<open>get\<close>), and a position whose product is a list (it cannot be hashed).
\<close>

theorem reverse_mapping_fallback_witness:
  "map_hdfc_order_response_body (demo_env (failing timeout_error)) (JList [JInt 1])
     = Inl (Exn ''AttributeError'' (quoted ''list'' @ '' object has no attribute '' @ quoted ''get''))
   \<and> map_hdfc_order_response (demo_env (failing timeout_error)) (JList [JInt 1]) = JList [JInt 1]
   \<and> map_hdfc_position_body (demo_env (failing timeout_error))
        (JDict [(''symbol'', JStr ''INFY-EQ''), (''product'', JList [])])
     = Inl (Exn ''TypeError'' (''unhashable type: '' @ quoted ''list''))
   \<and> map_hdfc_position (demo_env (failing timeout_error))
        (JDict [(''symbol'', JStr ''INFY-EQ''), (''product'', JList [])])
     = JDict [(''symbol'', JStr ''INFY-EQ''), (''product'', JList [])]"
  using reverse_mapping_fallback [of "demo_env (failing timeout_error)" "JList [JInt 1]"
      "Exn ''AttributeError'' (quoted ''list'' @ '' object has no attribute '' @ quoted ''get'')"]
    reverse_mapping_fallback [of "demo_env (failing timeout_error)"
      "JDict [(''symbol'', JStr ''INFY-EQ''), (''product'', JList [])]"
      "Exn ''TypeError'' (''unhashable type: '' @ quoted ''list'')"]
  by (simp add: map_hdfc_order_response_body_def map_hdfc_position_body_def demo_env_def
      demo_oa_symbol_def PRODUCT_REVERSE_MAP_def)

section \<open>The product tables\<close>

text \<open>
  The forward lookup is \<open>PRODUCT_MAP.get(p, "MIS")\<close>, the reverse lookup is
  \<open>PRODUCT_REVERSE_MAP.get(b, "MIS")\<close>. MIS, CNC and NRML are fixed by the forward
  lookup followed by the reverse one; the three aliases are not.
\<close>

lemma product_table_lookups:
  "(p \<in> {''MIS'', ''CNC'', ''NRML''} \<longrightarrow>
      andThen (table_get PRODUCT_MAP (JStr p) ''MIS'')
        (\<lambda>b. table_get PRODUCT_REVERSE_MAP b ''MIS'') = Inr (JStr p))
   \<and> (p \<in> {''INTRADAY'', ''DELIVERY'', ''MARGIN''} \<longrightarrow>
      (\<exists>q. andThen (table_get PRODUCT_MAP (JStr p) ''MIS'')
              (\<lambda>b. table_get PRODUCT_REVERSE_MAP b ''MIS'') = Inr (JStr q) \<and> q \<noteq> p))"
  by (auto simp: PRODUCT_MAP_def PRODUCT_REVERSE_MAP_def)

section \<open>Token exchange and refresh\<close>

text \<open>
  C9. When the client id or the client secret is not configured (unset or empty), the
  token exchange and the refresh both return \<open>None\<close>; and for every environment and
  every input, neither of them raises.
\<close>

theorem token_calls_never_raise:
  "(os_getenv E ''BROKER_API_KEY'' [] = [] \<or> os_getenv E ''BROKER_API_SECRET'' [] = [] \<longrightarrow>
      get_access_token E authorization_code = Inr None
      \<and> refresh_access_token E refresh_token = Inr None)
   \<and> (\<exists>r. get_access_token E authorization_code = Inr r)
   \<and> (\<exists>r. refresh_access_token E refresh_token = Inr r)"
  by (auto simp: get_access_token_def refresh_access_token_def Let_def try_except_def
      andThen_def split: sum.splits)

theorem token_calls_never_raise_witness:
  "os_getenv (demo_env (failing timeout_error)) ''BROKER_API_KEY'' [] = []
   \<and> get_access_token (demo_env (failing timeout_error)) ''code-1'' = Inr None
   \<and> refresh_access_token (demo_env (failing timeout_error)) ''refresh-1'' = Inr None"
  using token_calls_never_raise [of "demo_env (failing timeout_error)" "''code-1''" "''refresh-1''"]
  by (simp add: os_getenv_def demo_env_def)

section \<open>The open position of a symbol\<close>

text \<open>
  C10. For the same environment (so the same positions response and the same symbol
  store), symbol, exchange and token, two calls of \<open>get_open_position\<close> that differ only in
  the product type return the same result.
\<close>

theorem get_open_position_ignores_producttype:
  "get_open_position E tradingsymbol exchange producttype1 auth
     = get_open_position E tradingsymbol exchange producttype2 auth"
  by (simp add: get_open_position_def)

section \<open>History on a transport failure\<close>

text \<open>
  C3. When the HTTP client raises (here a timeout), \<open>get_history\<close> returns the record that
  \<open>get_api_response\<close> built from the exception: status \<open>error\<close> and the message. The
  record has no \<open>candles\<close> entry.
\<close>

theorem get_history_transport_failure:
  "get_history (demo_env (failing timeout_error)) ''INFY'' ''NSE'' ''1d'' ''2024-01-01''
       ''2024-01-31'' ''token''
     = Inr (JDict [(''status'', JStr ''error''), (''message'', JStr ''timed out'')])
   \<and> andThen (get_history (demo_env (failing timeout_error)) ''INFY'' ''NSE'' ''1d''
         ''2024-01-01'' ''2024-01-31'' ''token'') (\<lambda>r. py_get r ''candles'' JNull)
     = Inr JNull"
  by (simp add: get_history_def data_api_get_api_response_def demo_env_def failing_def
      timeout_error_def status_error_message_def Let_def)

section \<open>Evaluating the concrete inputs\<close>

lemmas demo_simps =
  demo_env_def answering_def failing_def empty_response_def demo_br_symbol_def
  demo_oa_symbol_def timeout_error_def

lemmas table_simps =
  SIDE_MAP_def ORDER_TYPE_MAP_def PRODUCT_MAP_def VALIDITY_MAP_def
  ORDER_TYPE_REVERSE_MAP_items PRODUCT_REVERSE_MAP_def

lemmas forward_simps =
  map_order_to_hdfc_def add_optional_def dict_set_def Let_def





section \<open>The forward mapper\<close>















section \<open>The order type survives the round trip\<close>




section \<open>The product through the forward and the reverse mapper\<close>



section \<open>Defaults of the enumerated fields\<close>





section \<open>The status of the records of the gateways\<close>














section \<open>A success response with an empty body\<close>

lemma empty_200_get_api_response:
  assumes "get_httpx_client E = Inr client" and "\<forall>req. client req = Inr response"
    and "status_code response = 200" and "body_text response = []"
  shows "method \<in> {''GET'', ''POST'', ''PUT'', ''DELETE''} \<Longrightarrow>
           get_api_response E endpoint auth method payload = Inr status_success"
  using assms by (auto simp: get_api_response_def Let_def)

lemma empty_200_operations:
  assumes "get_httpx_client E = Inr client" and "\<forall>req. client req = Inr response"
    and "status_code response = 200" and "body_text response = []"
  shows "cancel_order E order_id auth = Inr status_success"
    and "get_order_book E auth
           = Inr (JDict [(''status'', JStr ''success''), (''orders'', JList [])])"
    and "get_trade_book E auth
           = Inr (JDict [(''status'', JStr ''success''), (''trades'', JList [])])"
    and "get_positions E auth
           = Inr (JDict [(''status'', JStr ''success''), (''positions'', JList [])])"
    and "get_holdings E auth
           = Inr (JDict [(''status'', JStr ''success''), (''holdings'', JList [])])"
    and "get_order E order_id auth = Inr (map_hdfc_order_response E status_success)"
    and "place_order E order auth =
           Inr (case map_order_to_hdfc E order of
                  Inl e \<Rightarrow> status_error_message e
                | Inr hdfc_order \<Rightarrow> map_hdfc_order_response E status_success)"
    and "modify_order E order_id order auth =
           Inr (case map_order_to_hdfc E order of
                  Inl e \<Rightarrow> status_error_message e
                | Inr hdfc_order \<Rightarrow> map_hdfc_order_response E status_success)"
  using empty_200_get_api_response [OF assms]
  by (auto simp: cancel_order_def get_order_book_def get_trade_book_def get_positions_def
      get_holdings_def get_order_def place_order_def modify_order_def status_success_def Let_def
      split: sum.splits)

lemma empty_200_open_position:
  assumes "get_httpx_client E = Inr client" and "\<forall>req. client req = Inr response"
    and "status_code response = 200" and "body_text response = []"
  shows "get_open_position E tradingsymbol exchange producttype auth = Inr (JDict [])"
  using empty_200_operations(4) [OF assms]
  by (auto simp: get_open_position_def try_except_def andThen_def split: sum.splits)

text \<open>
  C4, as the claim states it, fails. On a response with status 200 and an empty body
  \<open>place_order\<close> returns the image of \<open>{status: success}\<close> under the reverse mapper, a
  platform order with empty fields and \<open>order_status\<close> \<open>success\<close>, and \<open>get_open_position\<close>
  returns the empty record; neither is the record \<open>{status: success}\<close>.
\<close>

theorem empty_body_not_status_success_counterexample:
  "place_order (demo_env (answering (empty_response 200))) sample_order ''token''
     = Inr (JDict
         [(''order_id'', JStr []), (''symbol'', JStr []), (''exchange'', JStr []),
          (''side'', JStr []), (''quantity'', JInt 0), (''price'', JInt 0),
          (''order_type'', JStr ''MARKET''), (''product'', JStr ''MIS''),
          (''order_status'', JStr ''success''), (''filled_quantity'', JInt 0),
          (''pending_quantity'', JInt 0), (''average_price'', JInt 0),
          (''timestamp'', JStr [])])
   \<and> place_order (demo_env (answering (empty_response 200))) sample_order ''token''
       \<noteq> Inr status_success
   \<and> get_open_position (demo_env (answering (empty_response 200))) ''INFY'' ''NSE'' ''MIS''
         ''token'' = Inr (JDict [])
   \<and> JDict [] \<noteq> status_success"
  by (simp add: place_order_def get_open_position_def get_positions_def get_api_response_def
      sample_order_def forward_simps map_hdfc_order_response_def map_hdfc_order_response_body_def
      status_success_def demo_simps table_simps)

text \<open>
  C4, amended. When the client answers every request with status 200 and an empty body,
  \<open>get_api_response\<close> of the order gateway returns \<open>{status: success}\<close> for each of the four
  methods and no operation of the gateway raises: \<open>cancel_order\<close> returns
  \<open>{status: success}\<close>; each listing returns status \<open>success\<close> with an empty list;
  \<open>get_open_position\<close> returns the empty record; \<open>get_order\<close> returns the image of
  \<open>{status: success}\<close> under the reverse mapper, and so do \<open>place_order\<close> and \<open>modify_order\<close>
  when the forward mapping of the order returns (the error record of its exception
  otherwise).
\<close>

theorem empty_success_body:
  assumes "get_httpx_client E = Inr client" and "\<forall>req. client req = Inr response"
    and "status_code response = 200" and "body_text response = []"
  shows "(method \<in> {''GET'', ''POST'', ''PUT'', ''DELETE''} \<longrightarrow>
            get_api_response E endpoint auth method payload = Inr status_success)
     \<and> cancel_order E order_id auth = Inr status_success
     \<and> get_order_book E auth
         = Inr (JDict [(''status'', JStr ''success''), (''orders'', JList [])])
     \<and> get_trade_book E auth
         = Inr (JDict [(''status'', JStr ''success''), (''trades'', JList [])])
     \<and> get_positions E auth
         = Inr (JDict [(''status'', JStr ''success''), (''positions'', JList [])])
     \<and> get_holdings E auth
         = Inr (JDict [(''status'', JStr ''success''), (''holdings'', JList [])])
     \<and> get_open_position E tradingsymbol exchange producttype auth = Inr (JDict [])
     \<and> get_order E order_id auth = Inr (map_hdfc_order_response E status_success)
     \<and> place_order E order auth =
         Inr (case map_order_to_hdfc E order of
                Inl e \<Rightarrow> status_error_message e
              | Inr hdfc_order \<Rightarrow> map_hdfc_order_response E status_success)
     \<and> modify_order E order_id order auth =
         Inr (case map_order_to_hdfc E order of
                Inl e \<Rightarrow> status_error_message e
              | Inr hdfc_order \<Rightarrow> map_hdfc_order_response E status_success)"
  using empty_200_get_api_response [OF assms, of "method" "endpoint" "auth" "payload"]
    empty_200_operations [OF assms] empty_200_open_position [OF assms]
  by simp

theorem empty_success_body_witness:
  "get_httpx_client (demo_env (answering (empty_response 200)))
     = Inr (\<lambda>req. Inr (empty_response 200))
   \<and> status_code (empty_response 200) = 200 \<and> body_text (empty_response 200) = []
   \<and> get_api_response (demo_env (answering (empty_response 200))) ''/orders/42'' ''token''
        ''DELETE'' [] = Inr (JDict [(''status'', JStr ''success'')])
   \<and> cancel_order (demo_env (answering (empty_response 200))) ''42'' ''token''
       = Inr (JDict [(''status'', JStr ''success'')])
   \<and> get_order_book (demo_env (answering (empty_response 200))) ''token''
       = Inr (JDict [(''status'', JStr ''success''), (''orders'', JList [])])"
proof -
  have c: "get_httpx_client (demo_env (answering (empty_response 200)))
      = Inr (\<lambda>req. Inr (empty_response 200))"
    by (simp add: demo_simps)
  have a: "\<forall>req. (\<lambda>req. Inr (empty_response 200)) req = Inr (empty_response 200)"
    by simp
  have s: "status_code (empty_response 200) = 200" and b: "body_text (empty_response 200) = []"
    by (simp_all add: empty_response_def)
  show ?thesis
    using c s b empty_success_body [OF c a s b, of "''DELETE''" "''/orders/42''" "''token''" "[]"
        "''42''" "''INFY''" "''NSE''" "''MIS''" sample_order]
    by (simp add: status_success_def)
qed

section \<open>The open position is looked up under the wrong key\<close>

text \<open>
  A position that the reverse mapper built has no \<open>tradingsymbol\<close> entry: its symbol is
  under \<open>symbol\<close>, and it is the platform symbol.
\<close>

lemma mapped_position_has_no_tradingsymbol:
  "map_hdfc_position_body E hdfc_pos = Inr position \<Longrightarrow>
     py_get position ''tradingsymbol'' JNull = Inr JNull"
  by (auto simp: map_hdfc_position_body_def andThen_eq_Inr Let_def)

text \<open>
  C2. The broker returns one position, in INFY-EQ on NSE, and the symbol store resolves
  the platform symbol INFY on NSE to INFY-EQ. \<open>get_positions\<close> returns the position in
  platform form, and \<open>get_open_position\<close> for INFY on NSE returns the empty record: the
  loop compares the \<open>tradingsymbol\<close> entry of each position, which is absent, with the
  broker symbol.
\<close>

theorem get_open_position_misses_position:
  "get_br_symbol (demo_env (answering positions_response)) (JStr ''INFY'') (JStr ''NSE'')
     = Inr (Some ''INFY-EQ'')
   \<and> get_positions (demo_env (answering positions_response)) ''token''
       = Inr (JDict [(''status'', JStr ''success''), (''positions'', JList
           [JDict [(''symbol'', JStr ''INFY''), (''exchange'', JStr ''NSE''),
                   (''quantity'', JInt 10), (''product'', JStr ''MIS''),
                   (''price'', JInt 1500), (''pnl'', JInt 25), (''pnl_percentage'', JInt 1)]])])
   \<and> get_open_position (demo_env (answering positions_response)) ''INFY'' ''NSE'' ''MIS''
         ''token'' = Inr (JDict [])"
  by (simp add: get_open_position_def get_positions_def get_api_response_def Let_def
      positions_response_def map_hdfc_position_def map_hdfc_position_body_def demo_simps
      table_simps)


end
